theory Spec2Isabelle
  imports Complex_Main
begin

section \<open>Values and arrays\<close>

text \<open>
  The toolkit of \<^verbatim>\<open>common.py\<close> and \<^verbatim>\<open>segmentation.py\<close> works on numpy arrays of
  floats. A float is modelled as an exact real number or one of the three special values
  of IEEE arithmetic, so that a division by zero is a value of the model, as it is a value
  (and no exception) in numpy. Rounding of finite results is not modelled: finite
  arithmetic is exact, and the sign of a zero is not tracked (every zero is +0).
\<close>

datatype npfloat = Finite real | PosInf | NegInf | NaN

text \<open>The infinity with the sign of \<open>s\<close>; \<open>0 * inf\<close> and \<open>0 / 0\<close> are NaN.\<close>

definition inf_of_sign :: "real \<Rightarrow> npfloat" where
  "inf_of_sign s = (if s = 0 then NaN else if 0 < s then PosInf else NegInf)"

fun np_neg :: "npfloat \<Rightarrow> npfloat" where
  "np_neg (Finite a) = Finite (- a)"
| "np_neg PosInf = NegInf"
| "np_neg NegInf = PosInf"
| "np_neg NaN = NaN"

fun np_add :: "npfloat \<Rightarrow> npfloat \<Rightarrow> npfloat" where
  "np_add NaN y = NaN"
| "np_add x NaN = NaN"
| "np_add (Finite a) (Finite b) = Finite (a + b)"
| "np_add (Finite a) y = y"
| "np_add x (Finite b) = x"
| "np_add PosInf PosInf = PosInf"
| "np_add NegInf NegInf = NegInf"
| "np_add PosInf NegInf = NaN"
| "np_add NegInf PosInf = NaN"

definition np_sub :: "npfloat \<Rightarrow> npfloat \<Rightarrow> npfloat" where
  "np_sub x y = np_add x (np_neg y)"

fun np_mul :: "npfloat \<Rightarrow> npfloat \<Rightarrow> npfloat" where
  "np_mul NaN y = NaN"
| "np_mul x NaN = NaN"
| "np_mul (Finite a) (Finite b) = Finite (a * b)"
| "np_mul (Finite a) PosInf = inf_of_sign a"
| "np_mul (Finite a) NegInf = inf_of_sign (- a)"
| "np_mul PosInf (Finite b) = inf_of_sign b"
| "np_mul NegInf (Finite b) = inf_of_sign (- b)"
| "np_mul PosInf PosInf = PosInf"
| "np_mul NegInf NegInf = PosInf"
| "np_mul PosInf NegInf = NegInf"
| "np_mul NegInf PosInf = NegInf"

text \<open>
  True division of numpy scalars and arrays: a zero divisor gives an infinity or NaN
  (numpy prints a RuntimeWarning and goes on), never an exception.
\<close>

fun np_div :: "npfloat \<Rightarrow> npfloat \<Rightarrow> npfloat" where
  "np_div NaN y = NaN"
| "np_div x NaN = NaN"
| "np_div (Finite a) (Finite b) = (if b = 0 then inf_of_sign a else Finite (a / b))"
| "np_div (Finite a) y = Finite 0"
| "np_div PosInf (Finite b) = (if 0 \<le> b then PosInf else NegInf)"
| "np_div NegInf (Finite b) = (if 0 \<le> b then NegInf else PosInf)"
| "np_div x y = NaN"

text \<open>Comparisons: every comparison with NaN is false.\<close>

fun np_lt :: "npfloat \<Rightarrow> npfloat \<Rightarrow> bool" where
  "np_lt NaN y = False"
| "np_lt x NaN = False"
| "np_lt (Finite a) (Finite b) = (a < b)"
| "np_lt x PosInf = (x \<noteq> PosInf)"
| "np_lt NegInf y = (y \<noteq> NegInf)"
| "np_lt x y = False"

definition np_gt :: "npfloat \<Rightarrow> npfloat \<Rightarrow> bool" where
  "np_gt x y = np_lt y x"

definition np_le :: "npfloat \<Rightarrow> npfloat \<Rightarrow> bool" where
  "np_le x y = (x \<noteq> NaN \<and> y \<noteq> NaN \<and> (x = y \<or> np_lt x y))"

text \<open>\<^verbatim>\<open>np.maximum\<close> and \<^verbatim>\<open>np.minimum\<close> propagate NaN.\<close>

definition np_maximum :: "npfloat \<Rightarrow> npfloat \<Rightarrow> npfloat" where
  "np_maximum x y = (if x = NaN \<or> y = NaN then NaN else if np_lt x y then y else x)"

definition np_minimum :: "npfloat \<Rightarrow> npfloat \<Rightarrow> npfloat" where
  "np_minimum x y = (if x = NaN \<or> y = NaN then NaN else if np_lt y x then y else x)"

fun np_abs :: "npfloat \<Rightarrow> npfloat" where
  "np_abs (Finite a) = Finite \<bar>a\<bar>"
| "np_abs PosInf = PosInf"
| "np_abs NegInf = PosInf"
| "np_abs NaN = NaN"

text \<open>A boolean as a float, as in \<^verbatim>\<open>bool_array * array\<close> and \<^verbatim>\<open>.astype(float)\<close>.\<close>

definition np_of_bool :: "bool \<Rightarrow> npfloat" where
  "np_of_bool b = Finite (if b then 1 else 0)"

text \<open>\<^verbatim>\<open>np.sum\<close> of the elements of an array, given in row-major order.\<close>

definition np_sum :: "npfloat list \<Rightarrow> npfloat" where
  "np_sum xs = foldl np_add (Finite 0) xs"

text \<open>
  An array has two axes (a grayscale image, a kernel) or three (a colour image):
  \<open>chans\<close> is \<open>None\<close> for a 2-D array and the length of the third axis otherwise; a
  2-D array is read at channel 0. Rows, columns and channels are counted from 0.
\<close>

record ndarray =
  nrows :: nat
  ncols :: nat
  chans :: "nat option"
  item :: "nat \<Rightarrow> nat \<Rightarrow> nat \<Rightarrow> npfloat"

definition nchan :: "ndarray \<Rightarrow> nat" where
  "nchan a = (case chans a of None \<Rightarrow> 1 | Some k \<Rightarrow> k)"

text \<open>\<^verbatim>\<open>np.zeros(shape=...)\<close>.\<close>

definition zeros :: "nat \<Rightarrow> nat \<Rightarrow> nat option \<Rightarrow> ndarray" where
  "zeros h w k = \<lparr>nrows = h, ncols = w, chans = k, item = (\<lambda>r c ch. Finite 0)\<rparr>"

text \<open>A 2-D array literal, \<^verbatim>\<open>np.array([[...], ...])\<close>.\<close>

definition of_rows :: "real list list \<Rightarrow> ndarray" where
  "of_rows rs = \<lparr>nrows = length rs, ncols = (case rs of [] \<Rightarrow> 0 | r # _ \<Rightarrow> length r),
     chans = None, item = (\<lambda>r c ch. Finite (rs ! r ! c))\<rparr>"

text \<open>The elements of an array in row-major order (\<^verbatim>\<open>a.ravel()\<close>).\<close>

definition elements :: "ndarray \<Rightarrow> npfloat list" where
  "elements a = concat (map (\<lambda>r. concat (map (\<lambda>c. map (item a r c) [0..<nchan a]) [0..<ncols a]))
     [0..<nrows a])"

text \<open>An array whose elements are all finite: the real-valued images of the data model.\<close>

definition is_finite :: "npfloat \<Rightarrow> bool" where
  "is_finite x = (case x of Finite _ \<Rightarrow> True | _ \<Rightarrow> False)"

definition finite_array :: "ndarray \<Rightarrow> bool" where
  "finite_array a = list_all is_finite (elements a)"

section \<open>Exceptions\<close>

text \<open>
  The exceptions the modelled functions raise, with their messages. A function that can
  raise returns \<open>exc + 'a\<close>, \<open>Inl\<close> for the exception.

  Modelled from the spec: \<^verbatim>\<open>log.raise_exception(message, exception)\<close> of
  \<^verbatim>\<open>Settings.settings\<close> is not among the sources; it logs the message and raises the
  exception (the spec calls these failures fatal and raised to the caller). The
  decorators \<^verbatim>\<open>measure_runtime\<close> and \<^verbatim>\<open>book_reference\<close> of \<^verbatim>\<open>Utilities.decorators\<close>
  are not among the sources either; a decorated function is modelled by its body.
\<close>

datatype exc = ValueError string | KeyError string | TypeError string | ZeroDivisionError string
  | IndexError string

fun bind_exc :: "exc + 'a \<Rightarrow> ('a \<Rightarrow> exc + 'b) \<Rightarrow> exc + 'b" where
  "bind_exc (Inl e) f = Inl e"
| "bind_exc (Inr x) f = f x"

text \<open>A loop whose body can raise: the first exception ends it.\<close>

fun for_each :: "('a \<Rightarrow> exc + 'b) \<Rightarrow> 'a list \<Rightarrow> exc + 'b list" where
  "for_each f [] = Inr []"
| "for_each f (x # xs) =
     (case f x of Inl e \<Rightarrow> Inl e
      | Inr y \<Rightarrow> (case for_each f xs of Inl e \<Rightarrow> Inl e | Inr ys \<Rightarrow> Inr (y # ys)))"

section \<open>Settings\<close>

text \<open>
  Modelled from the spec: the constants of \<^verbatim>\<open>Settings.image_settings\<close> are not among
  the sources. The docstring of \<^verbatim>\<open>pad_image\<close> names the zero policy
  \<^verbatim>\<open>"zero_padding"\<close>; the spec names the filter families box and Gaussian, and says that
  the Kirsch detector applies no normalization to its intermediate results, so the default
  normalization method is \<^verbatim>\<open>'unchanged'\<close> (the fallback of \<^verbatim>\<open>image_normalization\<close>).
\<close>

definition ZERO_PADDING :: string where
  "ZERO_PADDING = ''zero_padding''"

definition BOX_FILTER :: string where
  "BOX_FILTER = ''box''"

definition GAUSSIAN_FILTER :: string where
  "GAUSSIAN_FILTER = ''gaussian''"

definition DEFAULT_PADDING_TYPE :: string where
  "DEFAULT_PADDING_TYPE = ZERO_PADDING"

definition DEFAULT_NORMALIZATION_METHOD :: string where
  "DEFAULT_NORMALIZATION_METHOD = ''unchanged''"

section \<open>Slices\<close>

text \<open>
  A bound of a Python slice on an axis of length \<open>n\<close>: a negative bound counts from the
  end, and every bound is clipped to the axis. \<^verbatim>\<open>a[i:j]\<close> holds the indices from the
  start bound up to, not including, the stop bound, and none when the stop is not above
  the start.
\<close>

definition slice_bound :: "nat \<Rightarrow> int \<Rightarrow> nat" where
  "slice_bound n i = (if i < 0 then nat (max 0 (int n + i)) else min n (nat i))"

text \<open>
  \<^verbatim>\<open>a[r0:r1, c0:c1]\<close>: a view of the rows and columns of the two slices (all channels).
\<close>

definition slice2 :: "ndarray \<Rightarrow> int \<Rightarrow> int \<Rightarrow> int \<Rightarrow> int \<Rightarrow> ndarray" where
  "slice2 a r0 r1 c0 c1 =
     (let rs = slice_bound (nrows a) r0; re = slice_bound (nrows a) r1;
          cs = slice_bound (ncols a) c0; ce = slice_bound (ncols a) c1
      in \<lparr>nrows = re - rs, ncols = ce - cs, chans = chans a,
          item = (\<lambda>r c ch. item a (rs + r) (cs + c) ch)\<rparr>)"

text \<open>
  Assignment to a slice broadcasts the source to the shape of the target region: an axis
  of the source must have the length of the target's axis or length 1 (which is then
  repeated). Otherwise numpy raises ValueError. Source and target have the same number
  of axes here.
\<close>

definition fits :: "nat \<Rightarrow> nat \<Rightarrow> bool" where
  "fits s t = (s = t \<or> s = 1)"

definition bcast :: "nat \<Rightarrow> nat \<Rightarrow> nat" where
  "bcast n i = (if n = 1 then 0 else i)"

definition assign_slice2 ::
  "ndarray \<Rightarrow> int \<Rightarrow> int \<Rightarrow> int \<Rightarrow> int \<Rightarrow> ndarray \<Rightarrow> exc + ndarray" where
  "assign_slice2 a r0 r1 c0 c1 src =
     (let rs = slice_bound (nrows a) r0; re = slice_bound (nrows a) r1;
          cs = slice_bound (ncols a) c0; ce = slice_bound (ncols a) c1
      in if fits (nrows src) (re - rs) \<and> fits (ncols src) (ce - cs) \<and> fits (nchan src) (nchan a)
         then Inr (a\<lparr>item := (\<lambda>r c ch.
                if rs \<le> r \<and> r < re \<and> cs \<le> c \<and> c < ce
                then item src (bcast (nrows src) (r - rs)) (bcast (ncols src) (c - cs))
                       (bcast (nchan src) ch)
                else item a r c ch)\<rparr>)
         else Inl (ValueError ''could not broadcast input array''))"

section \<open>Padding\<close>

text \<open>
  \<^verbatim>\<open>pad_image(image, padding_type, padding_size)\<close>: an all-zero array of the expanded shape
  (with three channels when the image has a third axis), into which the zero policy copies
  the image by \<^verbatim>\<open>padded_image[padding_size:-padding_size, padding_size:-padding_size] = image[:, :]\<close>.
  For any other policy nothing is copied.
\<close>

definition pad_image :: "ndarray \<Rightarrow> string \<Rightarrow> int \<Rightarrow> exc + ndarray" where
  "pad_image img padding_type padding_size =
     (let rows = int (nrows img) + 2 * padding_size;
          cols = int (ncols img) + 2 * padding_size
      in if rows < 0 \<or> cols < 0 then Inl (ValueError ''negative dimensions are not allowed'')
         else
           let padded_image = zeros (nat rows) (nat cols)
                 (if chans img \<noteq> None then Some 3 else None)
           in if padding_type = ZERO_PADDING
              then assign_slice2 padded_image padding_size (- padding_size)
                     padding_size (- padding_size) img
              else Inr padded_image)"

section \<open>Sub-images\<close>

text \<open>
  \<^verbatim>\<open>extract_sub_image(image, position, sub_image_size)\<close>: the parity check comes first;
  the sub-image is the slice \<^verbatim>\<open>image[row_start:row_end, col_start:col_end]\<close>, with no check
  against the edges of the image (the slice is clipped).
\<close>

definition extract_sub_image :: "ndarray \<Rightarrow> int \<times> int \<Rightarrow> int \<Rightarrow> exc + ndarray" where
  "extract_sub_image img position sub_image_size =
     (if sub_image_size mod 2 = 0
      then Inl (ValueError ''The selected sub image is an even integer (sub image must have a center pixel, therefore, its size must be an odd integer)'')
      else
        let row_start = fst position - (sub_image_size div 2);
            row_end = fst position + (sub_image_size div 2) + 1;
            col_start = snd position - (sub_image_size div 2);
            col_end = snd position + (sub_image_size div 2) + 1
        in Inr (slice2 img row_start row_end col_start col_end))"

section \<open>Kernels\<close>

text \<open>
  \<^verbatim>\<open>generate_filter(filter_type, filter_size, **kwargs)\<close>. The size is an integer or a
  tuple of integers (the docstring allows both); only an integer is checked for parity,
  and for a tuple the shape stays at its initial value 1, a one-element vector. The
  keyword arguments \<open>k\<close> and \<open>sigma\<close> are Python floats, present or missing.
\<close>

datatype size_arg = IntSize int | TupleSize "int list"

datatype filter_array = Vector "npfloat list" | Matrix ndarray

record kwargs =
  k :: "real option"
  sigma :: "real option"

definition ones :: "nat \<Rightarrow> nat \<Rightarrow> ndarray" where
  "ones h w = \<lparr>nrows = h, ncols = w, chans = None, item = (\<lambda>r c ch. Finite 1)\<rparr>"

text \<open>\<^verbatim>\<open>kernel_matrix /= np.sum(kernel_matrix)\<close>.\<close>

definition normalize_sum :: "ndarray \<Rightarrow> ndarray" where
  "normalize_sum a = (let s = np_sum (elements a) in a\<lparr>item := (\<lambda>r c ch. np_div (item a r c ch) s)\<rparr>)"

text \<open>
  The Gaussian weights, \<^verbatim>\<open>k * exp(-r_squared / (2 * sigma ** 2))\<close>, computed on Python
  floats: the division raises ZeroDivisionError when \<open>sigma\<close> is 0.
\<close>

definition gaussian_matrix :: "nat \<Rightarrow> real \<Rightarrow> real \<Rightarrow> ndarray" where
  "gaussian_matrix n kk sg =
     (let center_position = int n div 2
      in \<lparr>nrows = n, ncols = n, chans = None,
          item = (\<lambda>row col ch.
            let r_squared = (real_of_int (int row - center_position))\<^sup>2
                          + (real_of_int (int col - center_position))\<^sup>2
            in Finite (kk * exp (- r_squared / (2 * sg\<^sup>2))))\<rparr>)"

definition generate_filter :: "string \<Rightarrow> size_arg \<Rightarrow> kwargs \<Rightarrow> exc + filter_array" where
  "generate_filter filter_type filter_size kw =
     (case filter_size of
        IntSize n \<Rightarrow>
          if n mod 2 = 0
          then Inl (ValueError ''Filter size is an even number. Filters should be odd number size'')
          else if n < 0 then Inl (ValueError ''negative dimensions are not allowed'')
          else if filter_type = BOX_FILTER then Inr (Matrix (normalize_sum (ones (nat n) (nat n))))
          else if filter_type = GAUSSIAN_FILTER then
            (case (k kw, sigma kw) of
               (Some kk, Some sg) \<Rightarrow>
                 if 2 * sg\<^sup>2 = 0 then Inl (ZeroDivisionError ''float division by zero'')
                 else Inr (Matrix (normalize_sum (gaussian_matrix (nat n) kk sg)))
             | _ \<Rightarrow> Inl (KeyError ''Missing arguments for filter generation''))
          else Inr (Matrix (zeros (nat n) (nat n) None))
      | TupleSize t \<Rightarrow>
          if filter_type = BOX_FILTER then Inr (Vector [np_div (Finite 1) (np_sum [Finite 1])])
          else if filter_type = GAUSSIAN_FILTER then
            (case (k kw, sigma kw) of
               (Some kk, Some sg) \<Rightarrow>
                 Inl (TypeError ''unsupported operand type(s) for //: tuple and int'')
             | _ \<Rightarrow> Inl (KeyError ''Missing arguments for filter generation''))
          else Inr (Vector [Finite 0]))"

section \<open>Normalization\<close>

text \<open>\<^verbatim>\<open>np.max\<close> and \<^verbatim>\<open>np.min\<close> of an array raise ValueError on an array with no element.\<close>

definition np_max :: "npfloat list \<Rightarrow> exc + npfloat" where
  "np_max xs = (case xs of
       [] \<Rightarrow> Inl (ValueError ''zero-size array to reduction operation maximum which has no identity'')
     | x # ys \<Rightarrow> Inr (foldl np_maximum x ys))"

definition np_min :: "npfloat list \<Rightarrow> exc + npfloat" where
  "np_min xs = (case xs of
       [] \<Rightarrow> Inl (ValueError ''zero-size array to reduction operation minimum which has no identity'')
     | x # ys \<Rightarrow> Inr (foldl np_minimum x ys))"

text \<open>
  \<^verbatim>\<open>contrast_stretching(image)\<close>: the slope is \<^verbatim>\<open>1 / (max_value - min_value)\<close>, a division
  of numpy scalars, and the result is \<^verbatim>\<open>m * (image[:, :] - min_value)\<close>, a new array.
\<close>

definition contrast_stretching :: "ndarray \<Rightarrow> exc + ndarray" where
  "contrast_stretching img =
     bind_exc (np_max (elements img)) (\<lambda>max_value.
     bind_exc (np_min (elements img)) (\<lambda>min_value.
       let m = np_div (Finite 1) (np_sub max_value min_value)
       in Inr (img\<lparr>item := (\<lambda>r c ch. np_mul m (np_sub (item img r c ch) min_value))\<rparr>)))"

text \<open>\<^verbatim>\<open>image[image > 1] = 1\<close> followed by \<^verbatim>\<open>image[image < 0] = 0\<close>.\<close>

definition cutoff :: "npfloat \<Rightarrow> npfloat" where
  "cutoff x = (let y = (if np_gt x (Finite 1) then Finite 1 else x)
               in if np_lt y (Finite 0) then Finite 0 else y)"

text \<open>
  \<^verbatim>\<open>image_normalization(image, normalization_method)\<close>, as a function of the contents of
  the array (which array object is returned is the subject of the section on the store).
\<close>

definition image_normalization :: "ndarray \<Rightarrow> string \<Rightarrow> exc + ndarray" where
  "image_normalization img normalization_method =
     (if normalization_method = ''unchanged'' then Inr img
      else if normalization_method = ''stretch'' then contrast_stretching img
      else if normalization_method = ''cutoff''
      then Inr (img\<lparr>item := (\<lambda>r c ch. cutoff (item img r c ch))\<rparr>)
      else Inr img)"

section \<open>Convolution\<close>

text \<open>
  The element-wise product \<^verbatim>\<open>sub_image * kernel\<close> of two 2-D arrays broadcasts an axis of
  length 1 to the length of the other operand's axis and raises ValueError when the
  lengths differ otherwise; \<^verbatim>\<open>np.sum\<close> adds the products up.
\<close>

definition broadcast_dim :: "nat \<Rightarrow> nat \<Rightarrow> nat option" where
  "broadcast_dim a b = (if a = b then Some a else if a = 1 then Some b else if b = 1 then Some a else None)"

definition sum_product :: "ndarray \<Rightarrow> ndarray \<Rightarrow> exc + npfloat" where
  "sum_product a kern =
     (case (broadcast_dim (nrows a) (nrows kern), broadcast_dim (ncols a) (ncols kern)) of
        (Some h, Some w) \<Rightarrow>
          Inr (np_sum (concat (map (\<lambda>r. map (\<lambda>c.
                 np_mul (item a (bcast (nrows a) r) (bcast (ncols a) c) 0)
                        (item kern (bcast (nrows kern) r) (bcast (ncols kern) c) 0))
               [0..<w]) [0..<h])))
      | _ \<Rightarrow> Inl (ValueError ''operands could not be broadcast together''))"

text \<open>\<^verbatim>\<open>a[:, :, i]\<close>: one channel of a 3-D array, as a 2-D array.\<close>

definition channel :: "ndarray \<Rightarrow> nat \<Rightarrow> exc + ndarray" where
  "channel a i =
     (if i < nchan a
      then Inr \<lparr>nrows = nrows a, ncols = ncols a, chans = None, item = (\<lambda>r c ch. item a r c i)\<rparr>
      else Inl (IndexError ''index is out of bounds for axis 2''))"

text \<open>
  The body of the two loops of \<^verbatim>\<open>convolution_2d\<close> at the position \<open>(row, col)\<close> of the
  padded image: the value written to the output pixel, one number for a 2-D image and a
  list of three for a 3-D image (which fits the pixel only if the image has 3 channels).
\<close>

definition convolve_at :: "ndarray \<Rightarrow> ndarray \<Rightarrow> ndarray \<Rightarrow> nat \<Rightarrow> nat \<Rightarrow> nat \<Rightarrow> exc + npfloat list" where
  "convolve_at img padded_image kern kernel_size row col =
     bind_exc (extract_sub_image padded_image (int row, int col) (int kernel_size)) (\<lambda>sub_image.
       if chans img \<noteq> None
       then
         bind_exc (bind_exc (channel sub_image 0) (\<lambda>p. sum_product p kern)) (\<lambda>s0.
         bind_exc (bind_exc (channel sub_image 1) (\<lambda>p. sum_product p kern)) (\<lambda>s1.
         bind_exc (bind_exc (channel sub_image 2) (\<lambda>p. sum_product p kern)) (\<lambda>s2.
           if nchan img = 3 then Inr [s0, s1, s2]
           else Inl (ValueError ''could not broadcast input array''))))
       else bind_exc (sum_product sub_image kern) (\<lambda>s. Inr [s]))"

text \<open>
  \<^verbatim>\<open>convolution_2d(image, kernel, padding_type, normalization_method)\<close>. The output array
  has the shape of the image; its pixel \<open>(row - kernel_size // 2, col - kernel_size // 2)\<close>
  is written in the iteration \<open>(row, col)\<close>.
\<close>

definition convolution_2d :: "ndarray \<Rightarrow> ndarray \<Rightarrow> string \<Rightarrow> string \<Rightarrow> exc + ndarray" where
  "convolution_2d img kern padding_type normalization_method =
     (let kernel_size = nrows kern
      in if nrows kern \<noteq> ncols kern then Inl (ValueError ''Kernel is not symmetrical'')
         else
           bind_exc (pad_image img padding_type (int kernel_size div 2)) (\<lambda>padded_image.
           bind_exc (for_each (\<lambda>row. for_each (\<lambda>col.
                        convolve_at img padded_image kern kernel_size row col)
                      [kernel_size div 2 ..< ncols img + kernel_size div 2])
                    [kernel_size div 2 ..< nrows img + kernel_size div 2]) (\<lambda>values.
             let convolution_image = \<lparr>nrows = nrows img, ncols = ncols img, chans = chans img,
                   item = (\<lambda>r c ch. values ! r ! c ! ch)\<rparr>
             in image_normalization convolution_image normalization_method)))"

section \<open>Thresholding\<close>

text \<open>\<^verbatim>\<open>thresholding(image, threshold_value)\<close> is \<^verbatim>\<open>(image > threshold_value).astype(float)\<close>.\<close>

definition thresholding :: "ndarray \<Rightarrow> npfloat \<Rightarrow> ndarray" where
  "thresholding img threshold_value =
     img\<lparr>item := (\<lambda>r c ch. np_of_bool (np_gt (item img r c ch) threshold_value))\<rparr>"

section \<open>Kirsch edge detection\<close>

datatype direction = NORTH | NORTH_WEST | WEST | SOUTH_WEST | SOUTH | SOUTH_EAST | EAST | NORTH_EAST

text \<open>The dictionary of the eight kernels, in the order of its literal (the order of the loops).\<close>

definition kirsch_edge_detection_kernels :: "(direction \<times> ndarray) list" where
  "kirsch_edge_detection_kernels =
     [(NORTH, of_rows [[-3, -3, 5], [-3, 0, 5], [-3, -3, 5]]),
      (NORTH_WEST, of_rows [[-3, 5, 5], [-3, 0, 5], [-3, -3, -3]]),
      (WEST, of_rows [[5, 5, 5], [-3, 0, -3], [-3, -3, -3]]),
      (SOUTH_WEST, of_rows [[5, 5, -3], [5, 0, -3], [-3, -3, -3]]),
      (SOUTH, of_rows [[5, -3, -3], [5, 0, -3], [5, -3, -3]]),
      (SOUTH_EAST, of_rows [[-3, -3, -3], [5, 0, -3], [5, 5, -3]]),
      (EAST, of_rows [[-3, -3, -3], [-3, 0, -3], [5, 5, 5]]),
      (NORTH_EAST, of_rows [[-3, -3, -3], [-3, 0, 5], [-3, 5, 5]])]"

text \<open>
  An element-wise operation on two arrays of one shape. In \<^verbatim>\<open>kirsch_edge_detection\<close>
  every operand has the shape of the image: the responses (the output of
  \<^verbatim>\<open>convolution_2d\<close> is allocated with \<^verbatim>\<open>image.shape\<close>) and the maximum image
  (\<^verbatim>\<open>np.zeros(shape=image.shape)\<close>).
\<close>

definition elementwise :: "(npfloat \<Rightarrow> npfloat \<Rightarrow> npfloat) \<Rightarrow> ndarray \<Rightarrow> ndarray \<Rightarrow> ndarray" where
  "elementwise f a b = a\<lparr>item := (\<lambda>r c ch. f (item a r c ch) (item b r c ch))\<rparr>"

text \<open>The first loop: one convolution per direction, with the default normalization.\<close>

definition post_convolution_images :: "ndarray \<Rightarrow> string \<Rightarrow> exc + (direction \<times> ndarray) list" where
  "post_convolution_images img padding_type =
     for_each (\<lambda>(direction_kernel, kern).
         bind_exc (convolution_2d img kern padding_type DEFAULT_NORMALIZATION_METHOD)
           (\<lambda>p. Inr (direction_kernel, p)))
       kirsch_edge_detection_kernels"

text \<open>
  The second loop: \<^verbatim>\<open>boolean_image = (post > max_value_image) * post\<close> and
  \<^verbatim>\<open>max_value_image = np.maximum(boolean_image, max_value_image)\<close>, from an all-zero image.
\<close>

definition max_value_step :: "ndarray \<Rightarrow> ndarray \<Rightarrow> ndarray" where
  "max_value_step max_value_image post =
     (let boolean_image = elementwise (\<lambda>x m. np_mul (np_of_bool (np_gt x m)) x) post max_value_image
      in elementwise np_maximum boolean_image max_value_image)"

definition max_value_image :: "ndarray \<Rightarrow> (direction \<times> ndarray) list \<Rightarrow> ndarray" where
  "max_value_image img posts =
     foldl max_value_step (zeros (nrows img) (ncols img) (chans img)) (map snd posts)"

text \<open>The third loop: \<^verbatim>\<open>(post <= max_value_image) * post\<close> for every direction.\<close>

definition kirsch_edge_detection :: "ndarray \<Rightarrow> string \<Rightarrow> exc + (direction \<times> ndarray) list" where
  "kirsch_edge_detection img padding_type =
     bind_exc (post_convolution_images img padding_type) (\<lambda>posts.
       let m = max_value_image img posts
       in Inr (map (\<lambda>(direction, post).
                 (direction, elementwise (\<lambda>x m. np_mul (np_of_bool (np_le x m)) x) post m)) posts))"

section \<open>Global thresholding\<close>

text \<open>
  \<^verbatim>\<open>convert_to_grayscale(image)\<close>: a 2-D image is returned as it is; the channels 0, 1 and
  2 of a 3-D image are combined with the NTSC weights.
\<close>

definition convert_to_grayscale :: "ndarray \<Rightarrow> exc + ndarray" where
  "convert_to_grayscale img =
     (if chans img \<noteq> None
      then
        bind_exc (channel img 0) (\<lambda>red.
        bind_exc (channel img 1) (\<lambda>green.
        bind_exc (channel img 2) (\<lambda>blue.
          Inr \<lparr>nrows = nrows img, ncols = ncols img, chans = None,
               item = (\<lambda>r c ch. np_add (np_add (np_mul (Finite 0.2989) (item red r c ch))
                                               (np_mul (Finite 0.5870) (item green r c ch)))
                                       (np_mul (Finite 0.1140) (item blue r c ch)))\<rparr>)))
      else Inr img)"

text \<open>
  \<^verbatim>\<open>np.round(x, 3)\<close>: \<open>x\<close> times 1000, rounded to the nearest integer with halves going
  to the even neighbour, divided by 1000.
\<close>

definition round_half_even :: "real \<Rightarrow> int" where
  "round_half_even y =
     (let f = \<lfloor>y\<rfloor>; d = y - of_int f
      in if d < 1 / 2 then f else if 1 / 2 < d then f + 1 else if even f then f else f + 1)"

fun np_round3 :: "npfloat \<Rightarrow> npfloat" where
  "np_round3 (Finite x) = Finite (of_int (round_half_even (x * 1000)) / 1000)"
| "np_round3 x = x"

text \<open>
  The body of the loop up to the new threshold: the two groups of pixels, their counts
  and their means. The counts are Python integers; a mean is a numpy division, so an
  empty group gives NaN and raises nothing.
\<close>

definition new_global_threshold :: "ndarray \<Rightarrow> npfloat \<Rightarrow> npfloat" where
  "new_global_threshold grayscale_image global_threshold =
     (let boolean_image = (\<lambda>r c ch. np_gt (item grayscale_image r c ch) global_threshold);
          above_threshold_pixel_count =
            int (length (filter (\<lambda>x. np_gt x global_threshold) (elements grayscale_image)));
          below_threshold_pixel_count =
            int (nrows grayscale_image) * int (ncols grayscale_image) - above_threshold_pixel_count;
          above_threshold_image = grayscale_image\<lparr>item := (\<lambda>r c ch.
            np_mul (np_of_bool (boolean_image r c ch)) (item grayscale_image r c ch))\<rparr>;
          below_threshold_image = elementwise np_sub grayscale_image above_threshold_image;
          above_threshold_mean = np_div (np_sum (elements above_threshold_image))
            (Finite (of_int above_threshold_pixel_count));
          below_threshold_mean = np_div (np_sum (elements below_threshold_image))
            (Finite (of_int below_threshold_pixel_count))
      in np_round3 (np_mul (Finite 0.5) (np_add above_threshold_mean below_threshold_mean)))"

text \<open>
  The \<^verbatim>\<open>while True\<close> loop, with the current threshold and the list of the thresholds
  computed so far. It has no bound on its iterations: \<open>None\<close> is the loop that never ends.
\<close>

partial_function (option) threshold_search ::
  "ndarray \<Rightarrow> npfloat \<Rightarrow> npfloat \<Rightarrow> npfloat list \<Rightarrow> (npfloat \<times> npfloat list) option" where
  "threshold_search grayscale_image global_threshold delta_t thresholds =
     (let new_threshold = new_global_threshold grayscale_image global_threshold;
          thresholds' = thresholds @ [new_threshold]
      in if np_lt (np_abs (np_sub new_threshold global_threshold)) delta_t
         then Some (global_threshold, thresholds')
         else threshold_search grayscale_image (np_round3 new_threshold) delta_t thresholds')"

text \<open>
  \<^verbatim>\<open>global_thresholding(image, initial_threshold, delta_t)\<close>. The run gives the threshold
  reached and the list of thresholds (both are logged; the length of the list is the
  number of iterations); the function returns the image binarized at that threshold.
\<close>

definition global_thresholding_run ::
  "ndarray \<Rightarrow> npfloat \<Rightarrow> npfloat \<Rightarrow> (exc + ndarray \<times> npfloat \<times> npfloat list) option" where
  "global_thresholding_run img initial_threshold delta_t =
     (case convert_to_grayscale img of
        Inl e \<Rightarrow> Some (Inl e)
      | Inr grayscale_image \<Rightarrow>
          (case threshold_search grayscale_image (np_round3 initial_threshold) delta_t [] of
             None \<Rightarrow> None
           | Some (global_threshold, thresholds) \<Rightarrow>
               Some (Inr (grayscale_image, global_threshold, thresholds))))"

definition global_thresholding :: "ndarray \<Rightarrow> npfloat \<Rightarrow> npfloat \<Rightarrow> (exc + ndarray) option" where
  "global_thresholding img initial_threshold delta_t =
     (case global_thresholding_run img initial_threshold delta_t of
        None \<Rightarrow> None
      | Some (Inl e) \<Rightarrow> Some (Inl e)
      | Some (Inr (grayscale_image, global_threshold, thresholds)) \<Rightarrow>
          Some (Inr (thresholding grayscale_image (np_round3 global_threshold))))"

section \<open>Arrays as objects\<close>

text \<open>
  Which array a function returns, and whether it writes to its argument, is not visible
  in the contents alone. The store is the list of the arrays allocated so far; an array
  object is its index, and a new array is appended. \<^verbatim>\<open>image_normalization\<close> on objects:
  \<^verbatim>\<open>'unchanged'\<close> and the fallback \<^verbatim>\<open>return image\<close>, \<^verbatim>\<open>'cutoff'\<close> assigns to
  \<^verbatim>\<open>image[image > 1]\<close> and \<^verbatim>\<open>image[image < 0]\<close> and returns \<^verbatim>\<open>image\<close>, and
  \<^verbatim>\<open>'stretch'\<close> returns the array that \<^verbatim>\<open>contrast_stretching\<close> builds.
\<close>

type_synonym store = "ndarray list"

definition image_normalization_obj :: "store \<Rightarrow> nat \<Rightarrow> string \<Rightarrow> exc + store \<times> nat" where
  "image_normalization_obj s img normalization_method =
     (if normalization_method = ''unchanged'' then Inr (s, img)
      else if normalization_method = ''stretch''
      then (case contrast_stretching (s ! img) of
              Inl e \<Rightarrow> Inl e
            | Inr stretched \<Rightarrow> Inr (s @ [stretched], length s))
      else if normalization_method = ''cutoff''
      then Inr (s[img := (s ! img)\<lparr>item := (\<lambda>r c ch. cutoff (item (s ! img) r c ch))\<rparr>], img)
      else Inr (s, img))"

section \<open>The response of a kernel\<close>

text \<open>
  The pixel \<open>(r, c)\<close> of the image padded by \<open>p\<close>: under the zero policy the pixel of
  the image inside the centred region, and zero on the border; all zero under any other
  policy. The response of a kernel at the pixel \<open>(r, c)\<close> of the image is the sum of the
  products of the kernel with the window of the padded image whose top left corner is
  \<open>(r, c)\<close>.
\<close>

definition padded_item :: "ndarray \<Rightarrow> string \<Rightarrow> nat \<Rightarrow> nat \<Rightarrow> nat \<Rightarrow> nat \<Rightarrow> npfloat" where
  "padded_item img padding_type p r c ch =
     (if padding_type = ZERO_PADDING \<and> p \<le> r \<and> r < p + nrows img \<and> p \<le> c \<and> c < p + ncols img
      then item img (r - p) (c - p) ch else Finite 0)"

definition response :: "ndarray \<Rightarrow> ndarray \<Rightarrow> string \<Rightarrow> nat \<Rightarrow> nat \<Rightarrow> nat \<Rightarrow> npfloat" where
  "response img kern padding_type r c ch =
     np_sum (concat (map (\<lambda>i. map (\<lambda>j.
        np_mul (padded_item img padding_type (nrows kern div 2) (r + i) (c + j) ch) (item kern i j 0))
      [0..<nrows kern]) [0..<nrows kern]))"

text \<open>The same sum over a window of a given padded array.\<close>

definition window_sum :: "ndarray \<Rightarrow> ndarray \<Rightarrow> nat \<Rightarrow> nat \<Rightarrow> nat \<Rightarrow> npfloat" where
  "window_sum padded kern r c ch =
     np_sum (concat (map (\<lambda>i. map (\<lambda>j.
        np_mul (item padded (r + i) (c + j) ch) (item kern i j 0))
      [0..<nrows kern]) [0..<nrows kern]))"

text \<open>The real number a finite value stands for.\<close>

fun real_of :: "npfloat \<Rightarrow> real" where
  "real_of (Finite x) = x"
| "real_of x = 0"

text \<open>The response as a real number, for an image and a kernel with finite values.\<close>

definition real_response :: "ndarray \<Rightarrow> ndarray \<Rightarrow> string \<Rightarrow> nat \<Rightarrow> nat \<Rightarrow> nat \<Rightarrow> real" where
  "real_response img kern padding_type r c ch =
     sum_list (concat (map (\<lambda>i. map (\<lambda>j.
        real_of (padded_item img padding_type (nrows kern div 2) (r + i) (c + j) ch)
          * real_of (item kern i j 0))
      [0..<nrows kern]) [0..<nrows kern]))"

text \<open>The running maximum at one pixel.\<close>

definition running_step :: "npfloat \<Rightarrow> npfloat \<Rightarrow> npfloat" where
  "running_step m x = np_maximum (np_mul (np_of_bool (np_gt x m)) x) m"

section \<open>Properties of padding, sub-images and convolution\<close>

lemma slice_bound_nonneg: "slice_bound n (int i) = min n i"
  by (simp add: slice_bound_def)

lemma slice_bound_neg: "0 < p \<Longrightarrow> slice_bound n (- int p) = n - p"
  by (auto simp: slice_bound_def max_def)

lemma for_each_Inr: "(\<And>x. x \<in> set xs \<Longrightarrow> f x = Inr (g x)) \<Longrightarrow> for_each f xs = Inr (map g xs)"
  by (induction xs) auto

lemma bcast_lt: "i < n \<Longrightarrow> bcast n i = i"
  by (auto simp: bcast_def)

lemma pad_image_positive:
  assumes "0 < p" and "chans img = None \<or> chans img = Some 3"
  shows "\<exists>padded. pad_image img padding_type (int p) = Inr padded
     \<and> nrows padded = nrows img + 2 * p \<and> ncols padded = ncols img + 2 * p
     \<and> chans padded = chans img
     \<and> (\<forall>r c ch. ch < nchan img \<longrightarrow> item padded r c ch = padded_item img padding_type p r c ch)"
proof -
  have rows: "nat (int (nrows img) + 2 * int p) = nrows img + 2 * p"
    and cols: "nat (int (ncols img) + 2 * int p) = ncols img + 2 * p" by simp_all
  have nch: "fits (nchan img) (nchan (zeros h w (if chans img \<noteq> None then Some 3 else None)))" for h w
    using assms(2) by (auto simp: fits_def nchan_def zeros_def)
  show ?thesis
    using assms nch
    by (auto simp: pad_image_def Let_def rows cols assign_slice2_def slice_bound_nonneg
        slice_bound_neg[OF assms(1)] zeros_def fits_def padded_item_def bcast_lt)
qed

lemma extract_sub_image_odd:
  assumes "p \<le> row" "row + p < nrows padded" "p \<le> col" "col + p < ncols padded"
  shows "extract_sub_image padded (int row, int col) (int (2 * p + 1)) =
    Inr \<lparr>nrows = 2 * p + 1, ncols = 2 * p + 1, chans = chans padded,
         item = (\<lambda>r c ch. item padded (row - p + r) (col - p + c) ch)\<rparr>"
proof -
  have d: "int (2 * p + 1) div 2 = int p" "int (2 * p + 1) mod 2 \<noteq> 0" by presburger+
  have a: "int row - int p = int (row - p)" "int col - int p = int (col - p)"
    "int row + int p + 1 = int (row + p + 1)" "int col + int p + 1 = int (col + p + 1)"
    using assms by simp_all
  show ?thesis
    using assms unfolding extract_sub_image_def slice2_def Let_def fst_conv snd_conv d a slice_bound_nonneg
    by (auto simp: min_def)
qed

lemma sum_product_square:
  assumes "nrows a = K" "ncols a = K" "nrows kern = K" "ncols kern = K" "K \<noteq> 1"
  shows "sum_product a kern = Inr (np_sum (concat (map (\<lambda>i. map (\<lambda>j.
        np_mul (item a i j 0) (item kern i j 0)) [0..<K]) [0..<K])))"
  using assms by (simp add: sum_product_def broadcast_dim_def bcast_def)

lemma convolve_at_value:
  assumes "nrows kern = 2 * p + 1" "ncols kern = 2 * p + 1" "0 < p"
    and "p \<le> row" "row + p < nrows padded" "p \<le> col" "col + p < ncols padded"
    and "chans padded = chans img" "chans img = None \<or> chans img = Some 3"
  shows "convolve_at img padded kern (2 * p + 1) row col =
     Inr (map (window_sum padded kern (row - p) (col - p)) [0..<nchan img])"
proof -
  have K: "2 * p + 1 \<noteq> 1" using assms(3) by simp
  have u1: "[0..<1] = [0]" and u3: "[0..<3] = [0, 1, 2]" by (simp_all add: upt_rec)
  from assms(9) show ?thesis
  proof
    assume c: "chans img = None"
    show ?thesis
      unfolding convolve_at_def extract_sub_image_odd[OF assms(4-7)]
      using c assms(1,2,8) K
      by (simp add: sum_product_square[where K="2 * p + 1"] window_sum_def nchan_def u1)
  next
    assume c: "chans img = Some 3"
    show ?thesis
      unfolding convolve_at_def extract_sub_image_odd[OF assms(4-7)]
      using c assms(1,2,8) K
      by (simp add: sum_product_square[where K="2 * p + 1"] window_sum_def nchan_def u3 channel_def)
  qed
qed


lemma window_sum_padded:
  assumes "\<forall>r c. item padded r c ch = padded_item img padding_type (nrows kern div 2) r c ch"
  shows "window_sum padded kern r c ch = response img kern padding_type r c ch"
  using assms by (simp add: window_sum_def response_def)

lemma convolution_2d_response:
  assumes k: "nrows kern = 2 * p + 1" "ncols kern = 2 * p + 1" "0 < p"
    and c: "chans img = None \<or> chans img = Some 3"
    and nm: "normalization_method \<noteq> ''stretch''" "normalization_method \<noteq> ''cutoff''"
  shows "\<exists>out. convolution_2d img kern padding_type normalization_method = Inr out
     \<and> nrows out = nrows img \<and> ncols out = ncols img \<and> chans out = chans img
     \<and> (\<forall>r c ch. r < nrows img \<longrightarrow> c < ncols img \<longrightarrow> ch < nchan img \<longrightarrow>
           item out r c ch = response img kern padding_type r c ch)"
proof -
  obtain padded where pad: "pad_image img padding_type (int p) = Inr padded"
    and shp: "nrows padded = nrows img + 2 * p" "ncols padded = ncols img + 2 * p"
      "chans padded = chans img"
    and itm: "\<And>r c ch. ch < nchan img \<Longrightarrow> item padded r c ch = padded_item img padding_type p r c ch"
    using pad_image_positive[OF k(3) c, of padding_type] by blast
  have half: "(2 * p + 1) div 2 = p" "int (2 * p + 1) div 2 = int p" by presburger+
  let ?v = "\<lambda>row col. map (window_sum padded kern (row - p) (col - p)) [0..<nchan img]"
  have loops: "for_each (\<lambda>row. for_each (\<lambda>col. convolve_at img padded kern (2 * p + 1) row col)
         [p..<ncols img + p]) [p..<nrows img + p]
       = Inr (map (\<lambda>row. map (\<lambda>col. ?v row col) [p..<ncols img + p]) [p..<nrows img + p])"
  proof (rule for_each_Inr)
    fix row assume "row \<in> set [p..<nrows img + p]"
    then have r: "p \<le> row" "row + p < nrows padded" using shp by auto
    show "for_each (\<lambda>col. convolve_at img padded kern (2 * p + 1) row col) [p..<ncols img + p]
        = Inr (map (\<lambda>col. ?v row col) [p..<ncols img + p])"
    proof (rule for_each_Inr)
      fix col assume "col \<in> set [p..<ncols img + p]"
      then have cc: "p \<le> col" "col + p < ncols padded" using shp by auto
      show "convolve_at img padded kern (2 * p + 1) row col = Inr (?v row col)"
        by (rule convolve_at_value[OF k r cc shp(3) c])
    qed
  qed
  have resp: "window_sum padded kern r c ch = response img kern padding_type r c ch"
    if "ch < nchan img" for r c ch
    using itm[OF that] by (simp add: window_sum_padded k(1) half)
  let ?vals = "map (\<lambda>row. map (\<lambda>col. ?v row col) [p..<ncols img + p]) [p..<nrows img + p]"
  let ?out = "\<lparr>nrows = nrows img, ncols = ncols img, chans = chans img,
                item = (\<lambda>r c ch. ?vals ! r ! c ! ch)\<rparr>"
  have conv: "convolution_2d img kern padding_type normalization_method = Inr ?out"
    unfolding convolution_2d_def Let_def k half pad bind_exc.simps loops image_normalization_def
    using nm by simp
  have "item ?out r c ch = response img kern padding_type r c ch"
    if "r < nrows img" "c < ncols img" "ch < nchan img" for r c ch
    using that by (simp add: resp)
  then show ?thesis
    unfolding conv by simp
qed


subsection \<open>Claims\<close>

lemma upt_0_3: "[0..<3] = [0, 1, 2]"
  by (simp add: upt_rec)

lemma upt_1_4: "[1..<4] = [1, 2, 3]"
  by (simp add: upt_rec)

lemmas convolution_unfold = convolution_2d_def pad_image_def of_rows_def assign_slice2_def
  slice_bound_def zeros_def fits_def Let_def nchan_def convolve_at_def extract_sub_image_def
  slice2_def sum_product_def broadcast_dim_def bcast_def np_sum_def image_normalization_def

text \<open>
  C1 (at the margin 0). The specification asks, for every margin \<open>m \<ge> 0\<close>, for an image
  of shape \<open>(H + 2m, W + 2m)\<close> whose centre is the original. At \<open>m = 0\<close> the slice
  \<^verbatim>\<open>padded_image[0:-0, 0:-0]\<close> is \<^verbatim>\<open>padded_image[0:0, 0:0]\<close>, an empty region, and the
  assignment of a 2 by 2 image to it raises ValueError: \<^verbatim>\<open>pad_image\<close> returns no image.
  (For a positive margin the property holds: \<open>pad_image_positive\<close>.)
\<close>

theorem pad_image_margin_zero_raises:
  "pad_image (of_rows [[1, 2], [3, 4]]) ZERO_PADDING 0
     = Inl (ValueError ''could not broadcast input array'')"
  by (simp add: pad_image_def of_rows_def assign_slice2_def slice_bound_def zeros_def fits_def
      Let_def nchan_def)

text \<open>
  C6 (as the code computes it). The 3 by 3 image with a single 1 in its centre, convolved
  with the 3 by 3 box kernel under zero padding and without normalization: every window
  of the padded image holds the centre pixel, so every output pixel is 1/9, the four
  corners included.
\<close>

theorem convolution_impulse_box:
  "\<exists>out. convolution_2d (of_rows [[0, 0, 0], [0, 1, 0], [0, 0, 0]])
      (of_rows [[1/9, 1/9, 1/9], [1/9, 1/9, 1/9], [1/9, 1/9, 1/9]]) ZERO_PADDING ''unchanged'' = Inr out
    \<and> nrows out = 3 \<and> ncols out = 3 \<and> chans out = None
    \<and> map (\<lambda>r. map (\<lambda>c. item out r c 0) [0..<3]) [0..<3] = replicate 3 (replicate 3 (Finite (1/9)))"
  by (simp add: convolution_unfold upt_1_4 upt_0_3 numeral_3_eq_3)

text \<open>
  C6 as stated (centre 1/9 and the four corners 0) does not hold of the output.
\<close>

theorem convolution_impulse_box_corners:
  "\<not> (\<exists>out. convolution_2d (of_rows [[0, 0, 0], [0, 1, 0], [0, 0, 0]])
      (of_rows [[1/9, 1/9, 1/9], [1/9, 1/9, 1/9], [1/9, 1/9, 1/9]]) ZERO_PADDING ''unchanged'' = Inr out
    \<and> item out 1 1 0 = Finite (1/9) \<and> item out 0 0 0 = Finite 0 \<and> item out 0 2 0 = Finite 0
    \<and> item out 2 0 0 = Finite 0 \<and> item out 2 2 0 = Finite 0)"
  by (simp add: convolution_unfold upt_1_4 upt_0_3)

text \<open>
  C9. \<^verbatim>\<open>thresholding(image, t)\<close> has the shape of the image, every value is 0 or 1, and a
  value is 1 exactly where the pixel of the image is greater than \<open>t\<close>.
\<close>

theorem thresholding_binary:
  "nrows (thresholding img t) = nrows img \<and> ncols (thresholding img t) = ncols img \<and>
   chans (thresholding img t) = chans img \<and>
   (item (thresholding img t) r c ch = Finite 1 \<or> item (thresholding img t) r c ch = Finite 0) \<and>
   (item (thresholding img t) r c ch = Finite 1 \<longleftrightarrow> np_gt (item img r c ch) t)"
  by (simp add: thresholding_def np_of_bool_def)

subsection \<open>Contrast stretching of a constant image\<close>

lemma set_elements:
  "set (elements a) = {item a r c ch | r c ch. r < nrows a \<and> c < ncols a \<and> ch < nchan a}"
  by (fastforce simp: elements_def)

lemma elements_empty_iff:
  "elements a = [] \<longleftrightarrow> nrows a = 0 \<or> ncols a = 0 \<or> nchan a = 0"
proof -
  have "elements a = [] \<longleftrightarrow> set (elements a) = {}" by simp
  also have "\<dots> \<longleftrightarrow> nrows a = 0 \<or> ncols a = 0 \<or> nchan a = 0"
    unfolding set_elements by auto
  finally show ?thesis .
qed

lemma foldl_maximum_constant:
  "set ys \<subseteq> {Finite v} \<Longrightarrow> foldl np_maximum (Finite v) ys = Finite v"
  by (induction ys) (auto simp: np_maximum_def)

lemma foldl_minimum_constant:
  "set ys \<subseteq> {Finite v} \<Longrightarrow> foldl np_minimum (Finite v) ys = Finite v"
  by (induction ys) (auto simp: np_minimum_def)

lemma np_max_constant:
  assumes "xs \<noteq> []" "set xs \<subseteq> {Finite v}"
  shows "np_max xs = Inr (Finite v)" "np_min xs = Inr (Finite v)"
  using assms by (cases xs; auto simp: np_max_def np_min_def foldl_maximum_constant foldl_minimum_constant)+

text \<open>
  C4 (as the code behaves). On an image with at least one pixel and one value \<open>v\<close> at
  every pixel, the maximum and the minimum are both \<open>v\<close>, the slope \<open>1 / (v - v)\<close> is
  infinite, and every pixel of the result is \<open>inf * 0\<close>: normalization under
  \<^verbatim>\<open>'stretch'\<close> returns an array of the shape of the image that holds NaN at every pixel,
  and raises nothing.
\<close>

theorem stretch_constant_image:
  assumes "0 < nrows img" "0 < ncols img" "0 < nchan img"
    and "\<forall>r c ch. r < nrows img \<and> c < ncols img \<and> ch < nchan img \<longrightarrow> item img r c ch = Finite v"
  shows "\<exists>out. image_normalization img ''stretch'' = Inr out
     \<and> nrows out = nrows img \<and> ncols out = ncols img \<and> chans out = chans img
     \<and> (\<forall>r c ch. r < nrows img \<and> c < ncols img \<and> ch < nchan img \<longrightarrow> item out r c ch = NaN)"
proof -
  have ne: "elements img \<noteq> []" using assms(1-3) by (simp add: elements_empty_iff)
  have sub: "set (elements img) \<subseteq> {Finite v}" using assms(4) by (auto simp: set_elements)
  show ?thesis
    using assms(4)
    by (simp add: image_normalization_def contrast_stretching_def np_max_constant[OF ne sub]
        np_sub_def inf_of_sign_def)
qed

theorem stretch_constant_image_witness:
  "\<exists>out. image_normalization (of_rows [[1/2, 1/2]]) ''stretch'' = Inr out
     \<and> nrows out = 1 \<and> ncols out = 2 \<and> chans out = None
     \<and> item out 0 0 0 = NaN \<and> item out 0 1 0 = NaN"
  using stretch_constant_image[of "of_rows [[1/2, 1/2]]" "1/2"]
  by (auto simp: of_rows_def nchan_def less_Suc_eq)

text \<open>
  C4 as stated (a failure is raised to the caller) does not hold: on the constant image
  \<open>[[1/2, 1/2]]\<close> no exception is the result.
\<close>

theorem stretch_constant_image_no_failure:
  "\<not> (\<exists>e. image_normalization (of_rows [[1/2, 1/2]]) ''stretch'' = Inl e)"
  by (simp add: image_normalization_def contrast_stretching_def np_max_def np_min_def elements_def of_rows_def nchan_def
      np_maximum_def np_minimum_def np_sub_def inf_of_sign_def upt_rec)

subsection \<open>Even sizes\<close>

lemma pad_image_raises_ValueError:
  "pad_image img padding_type p = Inl e \<Longrightarrow> \<exists>msg. e = ValueError msg"
  by (auto simp: pad_image_def assign_slice2_def Let_def split: if_splits)

lemma convolve_at_even:
  "even kernel_size \<Longrightarrow> \<exists>msg. convolve_at img padded kern kernel_size row col = Inl (ValueError msg)"
  by (simp add: convolve_at_def extract_sub_image_def)

lemma for_each_first_raises:
  "f x = Inl e \<Longrightarrow> for_each f (x # xs) = Inl e"
  by simp

lemma convolution_2d_even_kernel:
  assumes "even (nrows kern)" "0 < nrows img" "0 < ncols img"
  shows "\<exists>msg. convolution_2d img kern padding_type normalization_method = Inl (ValueError msg)"
proof (cases "nrows kern = ncols kern")
  case False
  then show ?thesis by (simp add: convolution_2d_def)
next
  case True
  let ?K = "nrows kern"
  show ?thesis
  proof (cases "pad_image img padding_type (int ?K div 2)")
    case (Inl e)
    then obtain msg where "e = ValueError msg" using pad_image_raises_ValueError by blast
    with Inl True show ?thesis by (simp add: convolution_2d_def)
  next
    case (Inr padded)
    have rows: "[?K div 2 ..< nrows img + ?K div 2] = ?K div 2 # [Suc (?K div 2) ..< nrows img + ?K div 2]"
      and cols: "[?K div 2 ..< ncols img + ?K div 2] = ?K div 2 # [Suc (?K div 2) ..< ncols img + ?K div 2]"
      using assms(2,3) by (simp_all add: upt_conv_Cons)
    obtain msg where m: "convolve_at img padded kern ?K (?K div 2) (?K div 2) = Inl (ValueError msg)"
      using convolve_at_even[OF assms(1)] by blast
    have "for_each (\<lambda>row. for_each (\<lambda>col. convolve_at img padded kern ?K row col)
              [?K div 2 ..< ncols img + ?K div 2]) [?K div 2 ..< nrows img + ?K div 2]
          = Inl (ValueError msg)"
      by (subst rows, rule for_each_first_raises, subst cols, rule for_each_first_raises, rule m)
    with Inr True show ?thesis by (simp add: convolution_2d_def)
  qed
qed

text \<open>
  C8 (as the code behaves). An even integer \<open>filter_size\<close> makes \<^verbatim>\<open>generate_filter\<close>
  raise ValueError and an even \<open>sub_image_size\<close> makes \<^verbatim>\<open>extract_sub_image\<close> raise
  ValueError, in both as the first thing the function does. \<^verbatim>\<open>convolution_2d\<close> has no
  parity check of its own: with a kernel of an even number of rows it raises ValueError
  on every image that has at least one pixel (from the symmetry check, from the padding,
  or from \<^verbatim>\<open>extract_sub_image\<close> at the first output pixel, after the image was padded).
\<close>

theorem even_size_rejected:
  assumes "even n" and "even (nrows kern)" "0 < nrows img" "0 < ncols img"
  shows "generate_filter filter_type (IntSize n) kw
           = Inl (ValueError ''Filter size is an even number. Filters should be odd number size'')
     \<and> extract_sub_image a position n
           = Inl (ValueError ''The selected sub image is an even integer (sub image must have a center pixel, therefore, its size must be an odd integer)'')
     \<and> (\<exists>msg. convolution_2d img kern padding_type normalization_method = Inl (ValueError msg))"
  using assms convolution_2d_even_kernel[OF assms(2-4)]
  by (simp add: generate_filter_def extract_sub_image_def)

theorem even_size_rejected_witness:
  "generate_filter BOX_FILTER (IntSize 4) \<lparr>k = None, sigma = None\<rparr>
           = Inl (ValueError ''Filter size is an even number. Filters should be odd number size'')
     \<and> extract_sub_image (of_rows [[1, 2], [3, 4]]) (1, 1) 4
           = Inl (ValueError ''The selected sub image is an even integer (sub image must have a center pixel, therefore, its size must be an odd integer)'')
     \<and> (\<exists>msg. convolution_2d (of_rows [[1, 2], [3, 4]]) (of_rows [[1/4, 1/4], [1/4, 1/4]])
            ZERO_PADDING ''unchanged'' = Inl (ValueError msg))"
  using even_size_rejected[of 4 "of_rows [[1/4, 1/4], [1/4, 1/4]]" "of_rows [[1, 2], [3, 4]]"
      BOX_FILTER "\<lparr>k = None, sigma = None\<rparr>" "of_rows [[1, 2], [3, 4]]" "(1, 1)" ZERO_PADDING "''unchanged''"]
  by (simp add: of_rows_def)

text \<open>
  C8 as stated (rejected in all cases) does not hold: a tuple as \<open>filter_size\<close> is not
  checked, and the convolution of an image without pixels (shape \<open>(0, 1)\<close>) with a 2 by 2
  kernel never enters its loops and returns.
\<close>

theorem even_kernel_empty_image_accepted:
  "generate_filter BOX_FILTER (TupleSize [4, 4]) \<lparr>k = None, sigma = None\<rparr> = Inr (Vector [Finite 1]) \<and>
  (\<exists>out. convolution_2d (zeros 0 1 None) (of_rows [[1/4, 1/4], [1/4, 1/4]]) ZERO_PADDING ''unchanged'' = Inr out)"
  by (simp add: convolution_unfold generate_filter_def)

subsection \<open>Which array is returned\<close>

text \<open>
  C5 (as the code behaves, for \<^verbatim>\<open>image_normalization\<close>). Under \<^verbatim>\<open>'stretch'\<close> the result
  is a newly allocated array: it is not the input, and every array that existed before
  the call is unchanged. Under \<^verbatim>\<open>'unchanged'\<close> and under an unrecognized method the
  store is unchanged and the array returned is the input array itself. In both cases the
  contents returned are those of \<open>image_normalization\<close>.
\<close>

theorem image_normalization_obj_frame:
  assumes "img < length s"
  shows "(\<forall>s' out. image_normalization_obj s img ''stretch'' = Inr (s', out) \<longrightarrow>
            out = length s \<and> out \<noteq> img \<and> take (length s) s' = s
            \<and> image_normalization (s ! img) ''stretch'' = Inr (s' ! out))
     \<and> (normalization_method \<noteq> ''stretch'' \<and> normalization_method \<noteq> ''cutoff'' \<longrightarrow>
          image_normalization_obj s img normalization_method = Inr (s, img)
          \<and> image_normalization (s ! img) normalization_method = Inr (s ! img))"
  using assms
  by (auto simp: image_normalization_obj_def image_normalization_def split: sum.splits)

theorem image_normalization_obj_frame_witness:
  "(\<exists>s' out. image_normalization_obj [of_rows [[0, 2]]] 0 ''stretch'' = Inr (s', out)
      \<and> out = 1 \<and> take 1 s' = [of_rows [[0, 2]]])
   \<and> image_normalization_obj [of_rows [[0, 2]]] 0 ''unchanged'' = Inr ([of_rows [[0, 2]]], 0)"
  using image_normalization_obj_frame[of 0 "[of_rows [[0, 2]]]" "''unchanged''"]
  by (auto simp: image_normalization_obj_def contrast_stretching_def np_max_def np_min_def
    elements_def of_rows_def nchan_def upt_rec)

text \<open>
  C5 as stated (the result never aliases the input, the input is never written) does not
  hold: under \<^verbatim>\<open>'unchanged'\<close> the array returned is the input array, and under
  \<^verbatim>\<open>'cutoff'\<close> the input array itself is overwritten (its pixel 2 becomes 1) and returned.
\<close>

theorem image_normalization_returns_its_input:
  "image_normalization_obj [of_rows [[2]]] 0 ''unchanged'' = Inr ([of_rows [[2]]], 0)
   \<and> (\<exists>s'. image_normalization_obj [of_rows [[2]]] 0 ''cutoff'' = Inr (s', 0)
         \<and> item (s' ! 0) 0 0 0 = Finite 1 \<and> item ([of_rows [[2]]] ! 0) 0 0 0 = Finite 2)"
  by (simp add: image_normalization_obj_def of_rows_def cutoff_def np_gt_def)

subsection \<open>Convolution of a constant image\<close>

lemma is_finite_real_of: "is_finite x \<Longrightarrow> Finite (real_of x) = x"
  by (cases x) (simp_all add: is_finite_def)

lemma foldl_add_Finite: "foldl np_add (Finite a) (map Finite xs) = Finite (a + sum_list xs)"
  by (induction xs arbitrary: a) (simp_all add: add.assoc)

lemma np_sum_Finite: "np_sum (map Finite xs) = Finite (sum_list xs)"
  by (simp add: np_sum_def foldl_add_Finite)

lemma finite_list_real_of: "list_all is_finite xs \<Longrightarrow> map Finite (map real_of xs) = xs"
  by (induction xs) (simp_all add: is_finite_real_of)

lemma foldl_add_scaled:
  "foldl np_add (Finite a) (map (np_mul (Finite v)) (map Finite rs)) = Finite (a + v * sum_list rs)"
  by (induction rs arbitrary: a) (simp_all add: algebra_simps)

lemma np_sum_scaled_Finite:
  "np_sum (map (np_mul (Finite v)) (map Finite rs)) = Finite (v * sum_list rs)"
  unfolding np_sum_def foldl_add_scaled by simp

lemma np_sum_scaled:
  assumes "list_all is_finite xs" "np_sum xs = Finite s"
  shows "np_sum (map (np_mul (Finite v)) xs) = Finite (v * s)"
proof -
  obtain rs where xs: "xs = map Finite rs"
    using finite_list_real_of[OF assms(1)] by metis
  from assms(2) have "sum_list rs = s" by (simp add: xs np_sum_Finite)
  then show ?thesis by (simp only: xs np_sum_scaled_Finite)
qed

lemma grid_cong:
  assumes "\<And>i j. i < K \<Longrightarrow> j < K \<Longrightarrow> f i j = g i j"
  shows "concat (map (\<lambda>i. map (f i) [0..<K]) [0..<K]) = concat (map (\<lambda>i. map (g i) [0..<K]) [0..<K])"
proof -
  have row: "map (f i) [0..<K] = map (g i) [0..<K]" if "i < K" for i
    by (rule map_cong) (use that assms in auto)
  have "map (\<lambda>i. map (f i) [0..<K]) [0..<K] = map (\<lambda>i. map (g i) [0..<K]) [0..<K]"
    by (rule map_cong) (use row in auto)
  then show ?thesis by (rule arg_cong)
qed

lemma elements_2d:
  "chans a = None \<Longrightarrow> elements a = concat (map (\<lambda>i. map (\<lambda>j. item a i j 0) [0..<ncols a]) [0..<nrows a])"
  by (simp add: elements_def nchan_def)

lemma response_constant_interior:
  assumes k: "chans kern = None" "nrows kern = 2 * p + 1" "ncols kern = 2 * p + 1"
    and const: "\<forall>r c ch. r < nrows img \<and> c < ncols img \<and> ch < nchan img \<longrightarrow> item img r c ch = Finite v"
    and inner: "p \<le> r" "r + p < nrows img" "p \<le> c" "c + p < ncols img" "ch < nchan img"
  shows "response img kern ZERO_PADDING r c ch = np_sum (map (np_mul (Finite v)) (elements kern))"
proof -
  define K where "K = 2 * p + 1"
  have half: "K div 2 = p" unfolding K_def by presburger
  have pad: "padded_item img ZERO_PADDING p (r + i) (c + j) ch = Finite v"
    if "i < K" "j < K" for i j
  proof -
    have "r + i - p < nrows img" "c + j - p < ncols img" using that inner unfolding K_def by linarith+
    then have "item img (r + i - p) (c + j - p) ch = Finite v"
      using const inner(5) by blast
    then show ?thesis using that inner unfolding K_def by (simp add: padded_item_def)
  qed
  have "response img kern ZERO_PADDING r c ch
      = np_sum (concat (map (\<lambda>i. map (\<lambda>j. np_mul (padded_item img ZERO_PADDING p (r + i) (c + j) ch)
          (item kern i j 0)) [0..<K]) [0..<K]))"
    unfolding response_def k K_def[symmetric] half ..
  also have "\<dots> = np_sum (concat (map (\<lambda>i. map (\<lambda>j. np_mul (Finite v) (item kern i j 0)) [0..<K]) [0..<K]))"
    by (rule arg_cong[where f = np_sum], rule grid_cong) (simp only: pad)
  also have "\<dots> = np_sum (map (np_mul (Finite v)) (elements kern))"
    unfolding elements_2d[OF k(1)] k K_def[symmetric] by (simp only: map_concat map_map comp_def)
  finally show ?thesis .
qed

lemma box_3_values:
  "chans (normalize_sum (ones 3 3)) = None" "nrows (normalize_sum (ones 3 3)) = 3"
  "ncols (normalize_sum (ones 3 3)) = 3"
  "item (normalize_sum (ones 3 3)) i j ch = Finite (1/9)"
  by (simp_all add: normalize_sum_def ones_def elements_def nchan_def np_sum_def upt_0_3 Let_def)

lemma box_3_elements:
  "elements (normalize_sum (ones 3 3)) =
     [Finite (1/9), Finite (1/9), Finite (1/9), Finite (1/9), Finite (1/9), Finite (1/9),
      Finite (1/9), Finite (1/9), Finite (1/9)]"
  by (simp add: elements_def nchan_def box_3_values upt_0_3)

text \<open>
  C3 (as the code behaves). For a constant image and a square kernel of odd side at least
  3 whose weights are finite and add up to 1 (the box and Gaussian kernels of
  \<^verbatim>\<open>generate_filter\<close> are such kernels), the convolution under zero padding and
  normalization \<^verbatim>\<open>'unchanged'\<close> returns the constant at every pixel whose window lies
  inside the image, that is, at distance at least \<open>kernel_size // 2\<close> from the four
  borders.
\<close>

theorem convolution_constant_interior:
  assumes "chans kern = None" "nrows kern = 2 * p + 1" "ncols kern = 2 * p + 1" "0 < p"
    and "finite_array kern" "np_sum (elements kern) = Finite 1"
    and "chans img = None \<or> chans img = Some 3"
    and "\<forall>r c ch. r < nrows img \<and> c < ncols img \<and> ch < nchan img \<longrightarrow> item img r c ch = Finite v"
    and "p \<le> r" "r + p < nrows img" "p \<le> c" "c + p < ncols img" "ch < nchan img"
  shows "\<exists>out. convolution_2d img kern ZERO_PADDING ''unchanged'' = Inr out
     \<and> nrows out = nrows img \<and> ncols out = ncols img \<and> chans out = chans img
     \<and> item out r c ch = Finite v"
proof -
  obtain out where out: "convolution_2d img kern ZERO_PADDING ''unchanged'' = Inr out"
      "nrows out = nrows img" "ncols out = ncols img" "chans out = chans img"
    and itm: "\<And>r c ch. r < nrows img \<Longrightarrow> c < ncols img \<Longrightarrow> ch < nchan img \<Longrightarrow>
               item out r c ch = response img kern ZERO_PADDING r c ch"
    using convolution_2d_response[OF assms(2-4) assms(7), of "''unchanged''" ZERO_PADDING] by auto
  have "item out r c ch = response img kern ZERO_PADDING r c ch"
    using assms by (intro itm) simp_all
  also have "\<dots> = np_sum (map (np_mul (Finite v)) (elements kern))"
    by (rule response_constant_interior[OF assms(1-3) assms(8-13)])
  also have "\<dots> = Finite v"
    using np_sum_scaled[of "elements kern" 1 v] assms(5,6) by (simp add: finite_array_def)
  finally show ?thesis using out by simp
qed


theorem convolution_constant_interior_witness:
  "\<exists>out. convolution_2d (of_rows [[2, 2, 2], [2, 2, 2], [2, 2, 2]]) (normalize_sum (ones 3 3))
       ZERO_PADDING ''unchanged'' = Inr out \<and> item out 1 1 0 = Finite 2"
proof -
  have fin: "finite_array (normalize_sum (ones 3 3))"
    and one: "np_sum (elements (normalize_sum (ones 3 3))) = Finite 1"
    by (simp_all add: finite_array_def box_3_elements is_finite_def np_sum_def)
  have const: "\<forall>r c ch. r < nrows (of_rows [[2, 2, 2], [2, 2, 2], [2, 2, 2]])
      \<and> c < ncols (of_rows [[2, 2, 2], [2, 2, 2], [2, 2, 2]])
      \<and> ch < nchan (of_rows [[2, 2, 2], [2, 2, 2], [2, 2, 2]])
      \<longrightarrow> item (of_rows [[2, 2, 2], [2, 2, 2], [2, 2, 2]]) r c ch = Finite 2"
    by (auto simp: of_rows_def nchan_def less_Suc_eq numeral_3_eq_3)
  show ?thesis
    using convolution_constant_interior[of "normalize_sum (ones 3 3)" 1
        "of_rows [[2, 2, 2], [2, 2, 2], [2, 2, 2]]" 2 1 1 0, OF _ _ _ _ fin one _ const]
    by (auto simp: box_3_values of_rows_def nchan_def)
qed

text \<open>
  C3 as stated (equal to the constant at every pixel) does not hold: near the border the
  window reaches into the zero padding. For the 3 by 3 image of ones and the 3 by 3 box
  kernel that \<^verbatim>\<open>generate_filter\<close> returns, the corner pixel is 4/9.
\<close>

theorem convolution_constant_border:
  "generate_filter BOX_FILTER (IntSize 3) \<lparr>k = None, sigma = None\<rparr> = Inr (Matrix (normalize_sum (ones 3 3)))
   \<and> (\<exists>out. convolution_2d (of_rows [[1, 1, 1], [1, 1, 1], [1, 1, 1]]) (normalize_sum (ones 3 3))
          ZERO_PADDING ''unchanged'' = Inr out
        \<and> item out 0 0 0 = Finite (4/9) \<and> item out 0 0 0 \<noteq> Finite 1)"
  by (simp add: generate_filter_def convolution_unfold upt_1_4 upt_0_3 box_3_values)

subsection \<open>Kirsch edge detection\<close>

lemma for_each_list_all2:
  assumes "\<And>x. x \<in> set xs \<Longrightarrow> \<exists>y. f x = Inr y \<and> P x y"
  shows "\<exists>ys. for_each f xs = Inr ys \<and> list_all2 P xs ys"
  using assms
proof (induction xs)
  case Nil
  then show ?case by simp
next
  case (Cons x xs)
  obtain y where y: "f x = Inr y" "P x y" using Cons.prems by auto
  obtain ys where ys: "for_each f xs = Inr ys" "list_all2 P xs ys"
    using Cons.IH Cons.prems by auto
  show ?case using y ys by simp
qed

lemma finite_array_item:
  "finite_array a \<Longrightarrow> r < nrows a \<Longrightarrow> c < ncols a \<Longrightarrow> ch < nchan a \<Longrightarrow> is_finite (item a r c ch)"
  unfolding finite_array_def list_all_iff set_elements by blast

lemma padded_item_finite:
  assumes "finite_array img" "ch < nchan img"
  shows "is_finite (padded_item img padding_type p r c ch)"
proof (cases "padding_type = ZERO_PADDING \<and> p \<le> r \<and> r < p + nrows img \<and> p \<le> c \<and> c < p + ncols img")
  case True
  then have "r - p < nrows img" "c - p < ncols img" by linarith+
  then show ?thesis
    using True finite_array_item[OF assms(1) _ _ assms(2)] by (simp add: padded_item_def)
next
  case False
  then show ?thesis by (auto simp: padded_item_def is_finite_def)
qed

lemma np_mul_finite: "is_finite x \<Longrightarrow> is_finite y \<Longrightarrow> np_mul x y = Finite (real_of x * real_of y)"
  by (cases x; cases y) (simp_all add: is_finite_def)

lemma response_Finite:
  assumes "finite_array img" "ch < nchan img"
    and "\<And>i j. i < nrows kern \<Longrightarrow> j < nrows kern \<Longrightarrow> is_finite (item kern i j 0)"
  shows "response img kern padding_type r c ch = Finite (real_response img kern padding_type r c ch)"
proof -
  let ?K = "nrows kern"
  let ?f = "\<lambda>i j. real_of (padded_item img padding_type (?K div 2) (r + i) (c + j) ch)
          * real_of (item kern i j 0)"
  have "concat (map (\<lambda>i. map (\<lambda>j. np_mul (padded_item img padding_type (?K div 2) (r + i) (c + j) ch)
            (item kern i j 0)) [0..<?K]) [0..<?K])
      = concat (map (\<lambda>i. map (\<lambda>j. Finite (?f i j)) [0..<?K]) [0..<?K])"
    by (rule grid_cong) (simp add: np_mul_finite padded_item_finite[OF assms(1,2)] assms(3))
  also have "\<dots> = map Finite (concat (map (\<lambda>i. map (?f i) [0..<?K]) [0..<?K]))"
    by (simp only: map_concat map_map comp_def)
  finally show ?thesis
    unfolding response_def real_response_def by (simp only: np_sum_Finite)
qed


lemma post_convolution_images_responses:
  assumes "chans img = None \<or> chans img = Some 3"
  shows "\<exists>posts. post_convolution_images img padding_type = Inr posts
     \<and> list_all2 (\<lambda>dk dp. fst dp = fst dk \<and>
          (\<forall>r c ch. r < nrows img \<longrightarrow> c < ncols img \<longrightarrow> ch < nchan img \<longrightarrow>
             item (snd dp) r c ch = response img (snd dk) padding_type r c ch))
        kirsch_edge_detection_kernels posts"
  unfolding post_convolution_images_def
proof (rule for_each_list_all2)
  fix x assume x: "x \<in> set kirsch_edge_detection_kernels"
  obtain d kern where dk: "x = (d, kern)" by (cases x)
  have shape3: "nrows kern = 2 * 1 + 1" "ncols kern = 2 * 1 + 1"
    using x unfolding dk kirsch_edge_detection_kernels_def by (auto simp: of_rows_def)
  have nm: "DEFAULT_NORMALIZATION_METHOD \<noteq> ''stretch''" "DEFAULT_NORMALIZATION_METHOD \<noteq> ''cutoff''"
    by (simp_all add: DEFAULT_NORMALIZATION_METHOD_def)
  obtain out where "convolution_2d img kern padding_type DEFAULT_NORMALIZATION_METHOD = Inr out"
    and "\<forall>r c ch. r < nrows img \<longrightarrow> c < ncols img \<longrightarrow> ch < nchan img \<longrightarrow>
           item out r c ch = response img kern padding_type r c ch"
    using convolution_2d_response[OF shape3 _ assms nm, of padding_type] by auto
  then show "\<exists>y. (case x of (direction_kernel, kern) \<Rightarrow>
            bind_exc (convolution_2d img kern padding_type DEFAULT_NORMALIZATION_METHOD)
              (\<lambda>p. Inr (direction_kernel, p))) = Inr y
        \<and> fst y = fst x \<and> (\<forall>r c ch. r < nrows img \<longrightarrow> c < ncols img \<longrightarrow> ch < nchan img \<longrightarrow>
             item (snd y) r c ch = response img (snd x) padding_type r c ch)"
    unfolding dk by simp
qed

lemma list_all2_map_eq:
  "list_all2 (\<lambda>x y. f x = g y) xs ys \<Longrightarrow> map f xs = map g ys"
  by (induction rule: list_all2_induct) simp_all

lemma item_foldl_max_value_step:
  "item (foldl max_value_step z ps) r c ch
     = foldl running_step (item z r c ch) (map (\<lambda>p. item p r c ch) ps)"
  by (induction ps arbitrary: z) (simp_all add: max_value_step_def elementwise_def running_step_def)

lemma running_step_Finite:
  "0 \<le> m \<Longrightarrow> running_step (Finite m) (Finite x) = Finite (max m x)"
  by (auto simp: running_step_def np_maximum_def np_of_bool_def np_gt_def max_def)

lemma foldl_running_step_Finite:
  "0 \<le> m \<Longrightarrow> foldl running_step (Finite m) (map Finite xs) = Finite (foldl max m xs)"
  by (induction xs arbitrary: m) (simp_all add: running_step_Finite)

lemma foldl_max_ge_start: "(m::real) \<le> foldl max m xs"
proof (induction xs arbitrary: m)
  case (Cons x xs)
  have "m \<le> max m x" by simp
  also have "\<dots> \<le> foldl max (max m x) xs" by (rule Cons.IH)
  finally show ?case by simp
qed simp

lemma foldl_max_ge_elem: "x \<in> set xs \<Longrightarrow> (x::real) \<le> foldl max m xs"
proof (induction xs arbitrary: m)
  case (Cons y ys)
  show ?case
  proof (cases "x = y")
    case True
    have "x \<le> max m y" using True by simp
    also have "\<dots> \<le> foldl max (max m y) ys" by (rule foldl_max_ge_start)
    finally show ?thesis by simp
  next
    case False
    then show ?thesis using Cons by simp
  qed
qed simp



lemma kirsch_kernel_finite:
  "dk \<in> set kirsch_edge_detection_kernels \<Longrightarrow> is_finite (item (snd dk) i j 0)"
  by (auto simp: kirsch_edge_detection_kernels_def of_rows_def is_finite_def)

lemma kept_when_not_above:
  "x \<le> m \<Longrightarrow> np_mul (np_of_bool (np_le (Finite x) (Finite m))) (Finite x) = Finite x"
  by (auto simp: np_le_def np_of_bool_def)

lemma kirsch_pixel:
  fixes padding_type :: string
  assumes fin: "finite_array img" and ch3: "chans img = None \<or> chans img = Some 3"
    and rc: "r < nrows img" "c < ncols img" "ch < nchan img"
  defines "xs \<equiv> map (\<lambda>dk. real_response img (snd dk) padding_type r c ch) kirsch_edge_detection_kernels"
  shows "\<exists>posts outs. post_convolution_images img padding_type = Inr posts
     \<and> kirsch_edge_detection img padding_type = Inr outs
     \<and> map fst posts = map fst kirsch_edge_detection_kernels
     \<and> map fst outs = map fst kirsch_edge_detection_kernels
     \<and> map (\<lambda>dp. item (snd dp) r c ch) posts = map Finite xs
     \<and> map (\<lambda>dp. item (snd dp) r c ch) outs = map Finite xs
     \<and> item (max_value_image img posts) r c ch = Finite (foldl max 0 xs)"
proof -
  obtain posts where posts: "post_convolution_images img padding_type = Inr posts"
    and la: "list_all2 (\<lambda>dk dp. fst dp = fst dk \<and>
          (\<forall>r c ch. r < nrows img \<longrightarrow> c < ncols img \<longrightarrow> ch < nchan img \<longrightarrow>
             item (snd dp) r c ch = response img (snd dk) padding_type r c ch))
        kirsch_edge_detection_kernels posts"
    using post_convolution_images_responses[OF ch3] by blast
  have "list_all2 (\<lambda>dk dp. fst dk = fst dp) kirsch_edge_detection_kernels posts"
    by (rule list_all2_mono[OF la]) simp
  then have keys: "map fst posts = map fst kirsch_edge_detection_kernels"
    by (rule list_all2_map_eq[symmetric])
  have "list_all2 (\<lambda>dk dp. response img (snd dk) padding_type r c ch = item (snd dp) r c ch)
          kirsch_edge_detection_kernels posts"
    by (rule list_all2_mono[OF la]) (use rc in simp)
  then have "map (\<lambda>dp. item (snd dp) r c ch) posts
      = map (\<lambda>dk. response img (snd dk) padding_type r c ch) kirsch_edge_detection_kernels"
    by (rule list_all2_map_eq[symmetric])
  also have "\<dots> = map Finite xs"
    unfolding xs_def map_map comp_def
    by (rule map_cong[OF refl]) (rule response_Finite[OF fin rc(3) kirsch_kernel_finite])
  finally have pix: "map (\<lambda>dp. item (snd dp) r c ch) posts = map Finite xs" .
  let ?m = "max_value_image img posts"
  have "item ?m r c ch = foldl running_step (Finite 0) (map (\<lambda>p. item p r c ch) (map snd posts))"
    unfolding max_value_image_def item_foldl_max_value_step by (simp add: zeros_def)
  also have "map (\<lambda>p. item p r c ch) (map snd posts) = map Finite xs"
    using pix by (simp add: comp_def)
  also have "foldl running_step (Finite 0) (map Finite xs) = Finite (foldl max 0 xs)"
    by (rule foldl_running_step_Finite) simp
  finally have maxv: "item ?m r c ch = Finite (foldl max 0 xs)" .
  let ?outs = "map (\<lambda>(direction, post).
       (direction, elementwise (\<lambda>x m. np_mul (np_of_bool (np_le x m)) x) post ?m)) posts"
  have outs: "kirsch_edge_detection img padding_type = Inr ?outs"
    by (simp add: kirsch_edge_detection_def posts Let_def)
  have okeys: "map fst ?outs = map fst kirsch_edge_detection_kernels"
    unfolding keys[symmetric] by (simp add: comp_def case_prod_beta)
  let ?g = "\<lambda>x. np_mul (np_of_bool (np_le x (Finite (foldl max 0 xs)))) x"
  have "map (\<lambda>dp. item (snd dp) r c ch) ?outs = map ?g (map (\<lambda>dp. item (snd dp) r c ch) posts)"
    by (simp add: comp_def case_prod_beta elementwise_def maxv)
  also have "\<dots> = map ?g (map Finite xs)" by (simp only: pix)
  also have "\<dots> = map Finite xs"
    unfolding map_map comp_def
    by (rule map_cong[OF refl]) (simp add: kept_when_not_above foldl_max_ge_elem)
  finally have opix: "map (\<lambda>dp. item (snd dp) r c ch) ?outs = map Finite xs" .
  show ?thesis
    using posts outs keys okeys pix opix maxv by blast
qed








lemma sample_image:
  "finite_array (of_rows [[1, 2], [3, 4]])" "chans (of_rows [[1, 2], [3, 4]]) = None"
  "nrows (of_rows [[1, 2], [3, 4]]) = 2" "ncols (of_rows [[1, 2], [3, 4]]) = 2"
  "nchan (of_rows [[1, 2], [3, 4]]) = 1"
  by (simp_all add: finite_array_def elements_def of_rows_def nchan_def is_finite_def upt_rec)

text \<open>
  C10. For an image with finite pixels (2-D, or 3-D with three channels) the detector
  returns, for each of the eight directions in the order of the kernels, an output that
  equals the response of that direction at every pixel of the image: the maximum image
  is the pointwise maximum of 0 and the eight responses, so the comparison
  \<^verbatim>\<open>response <= max_value_image\<close> holds for every response and the mask keeps every pixel.
\<close>

theorem kirsch_outputs_are_responses:
  assumes "finite_array img" "chans img = None \<or> chans img = Some 3"
    and "r < nrows img" "c < ncols img" "ch < nchan img"
  shows "\<exists>posts outs. post_convolution_images img padding_type = Inr posts
     \<and> kirsch_edge_detection img padding_type = Inr outs
     \<and> map fst posts = map fst kirsch_edge_detection_kernels
     \<and> map fst outs = map fst kirsch_edge_detection_kernels
     \<and> list_all (\<lambda>x. np_le x (item (max_value_image img posts) r c ch))
          (map (\<lambda>dp. item (snd dp) r c ch) posts)
     \<and> map (\<lambda>dp. item (snd dp) r c ch) outs = map (\<lambda>dp. item (snd dp) r c ch) posts"
proof -
  let ?xs = "map (\<lambda>dk. real_response img (snd dk) padding_type r c ch) kirsch_edge_detection_kernels"
  obtain posts outs where k: "post_convolution_images img padding_type = Inr posts"
      "kirsch_edge_detection img padding_type = Inr outs"
      "map fst posts = map fst kirsch_edge_detection_kernels"
      "map fst outs = map fst kirsch_edge_detection_kernels"
      "map (\<lambda>dp. item (snd dp) r c ch) posts = map Finite ?xs"
      "map (\<lambda>dp. item (snd dp) r c ch) outs = map Finite ?xs"
      "item (max_value_image img posts) r c ch = Finite (foldl max 0 ?xs)"
    using kirsch_pixel[OF assms, of padding_type] by blast
  have "list_all (\<lambda>x. np_le x (Finite (foldl max 0 ?xs))) (map Finite ?xs)"
    unfolding list_all_iff
  proof
    fix x assume "x \<in> set (map Finite ?xs)"
    then obtain y where y: "x = Finite y" "y \<in> set ?xs" by auto
    have "y \<le> foldl max 0 ?xs" by (rule foldl_max_ge_elem[OF y(2)])
    then show "np_le x (Finite (foldl max 0 ?xs))" by (auto simp: y np_le_def)
  qed
  then have "list_all (\<lambda>x. np_le x (item (max_value_image img posts) r c ch))
          (map (\<lambda>dp. item (snd dp) r c ch) posts)"
    by (simp only: k(5) k(7))
  moreover have "map (\<lambda>dp. item (snd dp) r c ch) outs = map (\<lambda>dp. item (snd dp) r c ch) posts"
    by (simp only: k(5) k(6))
  ultimately show ?thesis using k(1-4) by blast
qed

theorem kirsch_outputs_are_responses_witness:
  "\<exists>posts outs. post_convolution_images (of_rows [[1, 2], [3, 4]]) ZERO_PADDING = Inr posts
     \<and> kirsch_edge_detection (of_rows [[1, 2], [3, 4]]) ZERO_PADDING = Inr outs
     \<and> map fst outs = map fst kirsch_edge_detection_kernels
     \<and> map (\<lambda>dp. item (snd dp) 0 1 0) outs = map (\<lambda>dp. item (snd dp) 0 1 0) posts"
proof -
  have "\<exists>posts outs. post_convolution_images (of_rows [[1, 2], [3, 4]]) ZERO_PADDING = Inr posts
     \<and> kirsch_edge_detection (of_rows [[1, 2], [3, 4]]) ZERO_PADDING = Inr outs
     \<and> map fst posts = map fst kirsch_edge_detection_kernels
     \<and> map fst outs = map fst kirsch_edge_detection_kernels
     \<and> list_all (\<lambda>x. np_le x (item (max_value_image (of_rows [[1, 2], [3, 4]]) posts) 0 1 0))
          (map (\<lambda>dp. item (snd dp) 0 1 0) posts)
     \<and> map (\<lambda>dp. item (snd dp) 0 1 0) outs = map (\<lambda>dp. item (snd dp) 0 1 0) posts"
    by (rule kirsch_outputs_are_responses) (simp_all add: sample_image)
  then show ?thesis by blast
qed




subsection \<open>Global thresholding\<close>

lemma round_half_even_of_int: "round_half_even (of_int n) = n"
  by (simp add: round_half_even_def)

lemma np_round3_idem: "np_round3 (np_round3 x) = np_round3 x"
  by (cases x) (simp_all add: round_half_even_of_int)

lemma threshold_search_stops:
  assumes "threshold_search gray T0 delta ths0 = Some y"
  shows "np_lt (np_abs (np_sub (new_global_threshold gray (fst y)) (fst y))) delta
     \<and> (fst y = T0 \<or> np_round3 (fst y) = fst y)
     \<and> snd y \<noteq> [] \<and> last (snd y) = new_global_threshold gray (fst y)"
proof (rule threshold_search.raw_induct[where P = "\<lambda>gray T0 delta ths0 y.
     np_lt (np_abs (np_sub (new_global_threshold gray (fst y)) (fst y))) delta
     \<and> (fst y = T0 \<or> np_round3 (fst y) = fst y)
     \<and> snd y \<noteq> [] \<and> last (snd y) = new_global_threshold gray (fst y)", OF _ assms])
  fix search :: "ndarray \<Rightarrow> npfloat \<Rightarrow> npfloat \<Rightarrow> npfloat list \<Rightarrow> (npfloat \<times> npfloat list) option"
    and gray T0 delta and ths0 :: "npfloat list" and y
  assume ih: "\<And>gray T0 delta ths0 y. search gray T0 delta ths0 = Some y \<Longrightarrow>
     np_lt (np_abs (np_sub (new_global_threshold gray (fst y)) (fst y))) delta
     \<and> (fst y = T0 \<or> np_round3 (fst y) = fst y)
     \<and> snd y \<noteq> [] \<and> last (snd y) = new_global_threshold gray (fst y)"
  let ?new = "new_global_threshold gray T0"
  assume step: "(let new_threshold = new_global_threshold gray T0;
          thresholds' = ths0 @ [new_threshold]
      in if np_lt (np_abs (np_sub new_threshold T0)) delta
         then Some (T0, thresholds')
         else search gray (np_round3 new_threshold) delta thresholds') = Some y"
  show "np_lt (np_abs (np_sub (new_global_threshold gray (fst y)) (fst y))) delta
     \<and> (fst y = T0 \<or> np_round3 (fst y) = fst y)
     \<and> snd y \<noteq> [] \<and> last (snd y) = new_global_threshold gray (fst y)"
  proof (cases "np_lt (np_abs (np_sub ?new T0)) delta")
    case True
    with step have "y = (T0, ths0 @ [?new])" by (simp add: Let_def)
    with True show ?thesis by simp
  next
    case False
    with step have rec: "search gray (np_round3 ?new) delta (ths0 @ [?new]) = Some y"
      by (simp add: Let_def)
    note r = ih[OF rec]
    have "np_round3 (fst y) = fst y"
    proof (cases "fst y = np_round3 ?new")
      case True
      then show ?thesis by (simp add: np_round3_idem)
    next
      case False
      then show ?thesis using r by blast
    qed
    then show ?thesis using r by blast
  qed
qed

lemma sample_thresholds:
  "new_global_threshold (of_rows [[0, 1/2, 1]]) (Finite (1/5)) = Finite (3/8)"
  "new_global_threshold (of_rows [[0, 1/2, 1]]) (Finite (3/8)) = Finite (3/8)"
  by (simp_all add: new_global_threshold_def of_rows_def elements_def nchan_def upt_rec
      np_gt_def np_of_bool_def np_sum_def elementwise_def np_sub_def round_half_even_def Let_def)

lemma sample_run:
  "global_thresholding_run (of_rows [[0, 1/2, 1]]) (Finite (1/5)) (Finite (1/100))
     = Some (Inr (of_rows [[0, 1/2, 1]], Finite (3/8), [Finite (3/8), Finite (3/8)]))"
proof -
  have "threshold_search (of_rows [[0, 1/2, 1]]) (Finite (3/8)) (Finite (1/100)) [Finite (3/8)]
      = Some (Finite (3/8), [Finite (3/8), Finite (3/8)])"
    by (subst threshold_search.simps) (simp add: sample_thresholds np_sub_def Let_def)
  then have "threshold_search (of_rows [[0, 1/2, 1]]) (Finite (1/5)) (Finite (1/100)) []
      = Some (Finite (3/8), [Finite (3/8), Finite (3/8)])"
    by (subst threshold_search.simps) (simp add: sample_thresholds np_sub_def round_half_even_def Let_def)
  then show ?thesis
    by (simp add: global_thresholding_run_def convert_to_grayscale_def round_half_even_def of_rows_def)
qed

text \<open>
  C7. If \<^verbatim>\<open>global_thresholding\<close> on an image ends its search at the threshold \<open>T\<close> (the
  value of \<^verbatim>\<open>global_threshold\<close> when the loop breaks, which the function logs and
  binarizes with), then the run on the same image with \<open>T\<close> as the initial threshold
  ends too, after exactly one iteration (its list of thresholds has one element), at the
  same threshold, and returns the same binarized image.
\<close>

theorem global_thresholding_rerun:
  assumes "global_thresholding_run img initial_threshold delta_t
             = Some (Inr (grayscale_image, global_threshold, thresholds))"
  shows "global_thresholding_run img global_threshold delta_t
             = Some (Inr (grayscale_image, global_threshold, [last thresholds]))
     \<and> global_thresholding img global_threshold delta_t
             = global_thresholding img initial_threshold delta_t"
proof -
  from assms have gray: "convert_to_grayscale img = Inr grayscale_image"
    and search: "threshold_search grayscale_image (np_round3 initial_threshold) delta_t []
                   = Some (global_threshold, thresholds)"
    by (auto simp: global_thresholding_run_def split: sum.splits option.splits)
  note s = threshold_search_stops[OF search, simplified]
  have rounded: "np_round3 global_threshold = global_threshold"
    using s np_round3_idem by metis
  have "threshold_search grayscale_image global_threshold delta_t []
          = Some (global_threshold, [last thresholds])"
    by (subst threshold_search.simps) (use s in \<open>simp add: Let_def\<close>)
  then have run: "global_thresholding_run img global_threshold delta_t
             = Some (Inr (grayscale_image, global_threshold, [last thresholds]))"
    by (simp add: global_thresholding_run_def gray rounded)
  show ?thesis
    using run assms by (simp add: global_thresholding_def)
qed


theorem global_thresholding_rerun_witness:
  "global_thresholding_run (of_rows [[0, 1/2, 1]]) (Finite (1/5)) (Finite (1/100))
     = Some (Inr (of_rows [[0, 1/2, 1]], Finite (3/8), [Finite (3/8), Finite (3/8)]))
   \<and> global_thresholding_run (of_rows [[0, 1/2, 1]]) (Finite (3/8)) (Finite (1/100))
     = Some (Inr (of_rows [[0, 1/2, 1]], Finite (3/8), [Finite (3/8)]))
   \<and> global_thresholding (of_rows [[0, 1/2, 1]]) (Finite (3/8)) (Finite (1/100))
     = global_thresholding (of_rows [[0, 1/2, 1]]) (Finite (1/5)) (Finite (1/100))"
  using global_thresholding_rerun[OF sample_run] sample_run by simp

end
